theory Spec2Isabelle
  imports Complex_Main "HOL-Library.Product_Lexorder"
begin

section \<open>Values\<close>

text \<open>
  The two modules (\<^verbatim>\<open>demand_classifier.py\<close>, \<^verbatim>\<open>kmeans_segmenter.py\<close>) compute with
  float64 columns of pandas and numpy. A float64 is either a finite number, one of the two
  infinities or NaN. Finite values are modelled as reals with exact arithmetic (rounding,
  overflow and the sign of zero are not modelled); the three special values are explicit,
  because the code's \<^verbatim>\<open>fillna(0)\<close> and \<^verbatim>\<open>replace([inf, -inf], 0)\<close> exist for them.
\<close>

datatype npfloat = Fin real | PInf | NInf | NaN

text \<open>Exceptions of Python, pandas and scikit-learn that the modelled code can raise.\<close>

datatype py_error = KeyError | AttributeError | TypeError | ValueError | NotFittedError

fun isfinite :: "npfloat \<Rightarrow> bool" where
  "isfinite (Fin x) = True"
| "isfinite PInf = False"
| "isfinite NInf = False"
| "isfinite NaN = False"

text \<open>Comparison \<^verbatim>\<open>a < b\<close> of two floats: false as soon as one side is NaN.\<close>

fun flt :: "npfloat \<Rightarrow> npfloat \<Rightarrow> bool" where
  "flt (Fin x) (Fin y) = (x < y)"
| "flt (Fin x) PInf = True"
| "flt NInf (Fin y) = True"
| "flt NInf PInf = True"
| "flt _ _ = False"

text \<open>\<^verbatim>\<open>a > b\<close> is \<^verbatim>\<open>b < a\<close>.\<close>

definition fgt :: "npfloat \<Rightarrow> npfloat \<Rightarrow> bool" where
  "fgt a b = flt b a"

text \<open>\<^verbatim>\<open>a >= b\<close>: again false as soon as one side is NaN; an infinity is at least
  itself.\<close>

fun fge :: "npfloat \<Rightarrow> npfloat \<Rightarrow> bool" where
  "fge NaN _ = False"
| "fge _ NaN = False"
| "fge (Fin x) (Fin y) = (y \<le> x)"
| "fge PInf _ = True"
| "fge _ NInf = True"
| "fge _ _ = False"

text \<open>
  Division \<^verbatim>\<open>a / b\<close> of numpy: a finite nonzero number over zero is an infinity,
  zero over zero is NaN, and no exception is raised.
\<close>

fun fdiv :: "npfloat \<Rightarrow> npfloat \<Rightarrow> npfloat" where
  "fdiv (Fin x) (Fin y) =
     (if y \<noteq> 0 then Fin (x / y)
      else if x = 0 then NaN
      else if 0 < x then PInf else NInf)"
| "fdiv (Fin x) PInf = Fin 0"
| "fdiv (Fin x) NInf = Fin 0"
| "fdiv PInf (Fin y) = (if 0 \<le> y then PInf else NInf)"
| "fdiv NInf (Fin y) = (if 0 \<le> y then NInf else PInf)"
| "fdiv _ _ = NaN"

fun fadd :: "npfloat \<Rightarrow> npfloat \<Rightarrow> npfloat" where
  "fadd (Fin x) (Fin y) = Fin (x + y)"
| "fadd NaN _ = NaN"
| "fadd _ NaN = NaN"
| "fadd PInf NInf = NaN"
| "fadd NInf PInf = NaN"
| "fadd PInf _ = PInf"
| "fadd _ PInf = PInf"
| "fadd NInf _ = NInf"
| "fadd _ NInf = NInf"

fun fabs :: "npfloat \<Rightarrow> npfloat" where
  "fabs (Fin x) = Fin \<bar>x\<bar>"
| "fabs PInf = PInf"
| "fabs NInf = PInf"
| "fabs NaN = NaN"

text \<open>\<^verbatim>\<open>a ** 2\<close>.\<close>

fun fsquare :: "npfloat \<Rightarrow> npfloat" where
  "fsquare (Fin x) = Fin (x\<^sup>2)"
| "fsquare PInf = PInf"
| "fsquare NInf = PInf"
| "fsquare NaN = NaN"

text \<open>\<^verbatim>\<open>fillna(0)\<close> and \<^verbatim>\<open>replace([np.inf, -np.inf], 0)\<close> on one cell.\<close>

fun fillna0 :: "npfloat \<Rightarrow> npfloat" where
  "fillna0 NaN = Fin 0"
| "fillna0 a = a"

fun replace_inf0 :: "npfloat \<Rightarrow> npfloat" where
  "replace_inf0 PInf = Fin 0"
| "replace_inf0 NInf = Fin 0"
| "replace_inf0 a = a"

text \<open>\<^verbatim>\<open>clip(0, 1)\<close> on one cell; NaN stays NaN.\<close>

fun clip01 :: "npfloat \<Rightarrow> npfloat" where
  "clip01 (Fin x) = Fin (min 1 (max 0 x))"
| "clip01 PInf = Fin 1"
| "clip01 NInf = Fin 0"
| "clip01 NaN = NaN"

text \<open>
  Aggregations of pandas over the values of one group, which are finite here:
  \<^verbatim>\<open>mean\<close> of no value is NaN, and \<^verbatim>\<open>std\<close> (the sample standard deviation, one
  degree of freedom removed) of fewer than two values is NaN.
\<close>

definition mean_pd :: "real list \<Rightarrow> npfloat" where
  "mean_pd xs = (if xs = [] then NaN else Fin (sum_list xs / real (length xs)))"

definition std_pd :: "real list \<Rightarrow> npfloat" where
  "std_pd xs =
     (if length xs < 2 then NaN
      else let m = sum_list xs / real (length xs)
           in Fin (sqrt (sum_list (map (\<lambda>x. (x - m)\<^sup>2) xs) / real (length xs - 1))))"

section \<open>Demand pattern classifier\<close>

subsection \<open>\<^verbatim>\<open>classify_patterns\<close>\<close>

text \<open>
  The inner function \<^verbatim>\<open>get_category\<close> of \<^verbatim>\<open>DemandClassifier.classify_patterns\<close>, on the
  two cells \<^verbatim>\<open>row['ADI']\<close> and \<^verbatim>\<open>row['CV2']\<close>. The cutoffs are the literals of the source.
\<close>

definition get_category :: "npfloat \<Rightarrow> npfloat \<Rightarrow> string" where
  "get_category adi cv2 =
     (if flt adi (Fin 1.32) then
        (if flt cv2 (Fin 0.49) then ''Smooth'' else ''Erratic'')
      else
        (if flt cv2 (Fin 0.49) then ''Intermittent'' else ''Lumpy''))"

subsection \<open>Tables\<close>

text \<open>
  A calendar date is (year, month, day); the lexicographic order is the order of time.
\<close>

type_synonym timestamp = "int \<times> nat \<times> nat"

definition month :: "timestamp \<Rightarrow> nat" where
  "month d = fst (snd d)"

text \<open>
  An input table (a pandas DataFrame): the labels of the columns it has, and its records.
  A record carries a value for every column either module reads
  (\<^verbatim>\<open>date\<close>, \<^verbatim>\<open>store_id\<close>, \<^verbatim>\<open>item_id\<close>, \<^verbatim>\<open>total_sales\<close> for the classifier;
  \<^verbatim>\<open>item_id\<close>, \<^verbatim>\<open>store_id\<close>, \<^verbatim>\<open>revenue\<close>, \<^verbatim>\<open>sales\<close>, \<^verbatim>\<open>date\<close> for the segmentation) and
  the supplier reliability the caller may supply; a value under a label that is not in
  \<open>columns\<close> is never read, since selecting an absent label raises \<^verbatim>\<open>KeyError\<close>.
  Dates and quantities are present and finite in every record.
\<close>

record ('s, 'i) row =
  date :: timestamp
  store_id :: 's
  item_id :: 'i
  total_sales :: real
  sales :: real
  revenue :: real
  supplier_input :: real

record ('s, 'i) frame =
  columns :: "string list"
  rows :: "('s, 'i) row list"

subsection \<open>\<^verbatim>\<open>calculate_features\<close>\<close>

text \<open>One record of the table \<^verbatim>\<open>stats\<close> that \<^verbatim>\<open>calculate_features\<close> returns.\<close>

record ('s, 'i) stats =
  st_store_id :: 's
  st_item_id :: 'i
  total_demand :: real
  num_observations :: nat
  non_zero_obs :: nat
  ADI :: npfloat
  nz_mean :: npfloat
  nz_std :: npfloat
  CV :: npfloat
  CV2 :: npfloat

text \<open>
  \<^verbatim>\<open>groupby(['store_id', 'item_id'])\<close>: the keys that occur, in ascending order, and the
  records of one key. A key with no record is not a group.
\<close>

definition group_keys :: "('s::linorder, 'i::linorder) row list \<Rightarrow> ('s \<times> 'i) list" where
  "group_keys rs = sort (remdups (map (\<lambda>r. (store_id r, item_id r)) rs))"

definition group_rows :: "'s \<times> 'i \<Rightarrow> ('s, 'i) row list \<Rightarrow> ('s, 'i) row list" where
  "group_rows k rs = filter (\<lambda>r. (store_id r, item_id r) = k) rs"

text \<open>
  The columns of \<^verbatim>\<open>stats\<close> for one group, from the group's \<^verbatim>\<open>total_sales\<close> values:
  the three aggregates, \<^verbatim>\<open>ADI\<close>, the mean and standard deviation of the values above zero
  (NaN after the left merge when the group has none, and NaN standard deviation when it has
  one), both filled with 0, then \<^verbatim>\<open>CV\<close>, \<^verbatim>\<open>CV2\<close> and the last \<^verbatim>\<open>fillna(0)\<close>.
  The two counts are exact. The quotients and the square are the exact real values: the
  program's float64 values are these values rounded (a \<^verbatim>\<open>CV2\<close> next to the cutoff 0.49
  may fall on its other side, and a square that overflows is the infinity), which is why
  the properties below are stated so that rounding and overflow keep them: a sign, a
  comparison of the two counts, and values that are exactly 0.
\<close>

definition entity_stats :: "'s \<times> 'i \<Rightarrow> real list \<Rightarrow> ('s, 'i) stats" where
  "entity_stats k xs =
     (let n = length xs;
          nz = filter (\<lambda>x. 0 < x) xs;
          adi = fdiv (Fin (real n)) (Fin (real (length nz)));
          s = fillna0 (std_pd nz);
          m = fillna0 (mean_pd nz);
          cv = fdiv s m
      in \<lparr> st_store_id = fst k, st_item_id = snd k,
           total_demand = sum_list xs,
           num_observations = n,
           non_zero_obs = length nz,
           ADI = adi, nz_mean = m, nz_std = s,
           CV = cv, CV2 = fillna0 (fsquare cv) \<rparr>)"

definition calculate_features ::
    "('s::linorder, 'i::linorder) frame \<Rightarrow> py_error + ('s, 'i) stats list" where
  "calculate_features df =
     (if \<not> set [''date'', ''store_id'', ''item_id'', ''total_sales''] \<subseteq> set (columns df)
      then Inl KeyError
      else
        let rs = sort_key (\<lambda>r. (store_id r, item_id r, date r)) (rows df)
        in Inr (map (\<lambda>k. entity_stats k (map total_sales (group_rows k rs)))
                  (group_keys rs)))"

text \<open>\<^verbatim>\<open>classify_patterns\<close> adds the column \<^verbatim>\<open>demand_pattern\<close> to that table.\<close>

definition classify_patterns :: "('s, 'i) stats list \<Rightarrow> (('s, 'i) stats \<times> string) list" where
  "classify_patterns S = map (\<lambda>s. (s, get_category (ADI s) (CV2 s))) S"

subsection \<open>Sample tables of the classifier\<close>

text \<open>The statistics of a store-item pair with three days of sales: 2, 0 and 4 units.\<close>

definition s_w :: "(nat, nat) stats" where
  "s_w = \<lparr>st_store_id = 1, st_item_id = 7, total_demand = 6,
           num_observations = 3, non_zero_obs = 2, ADI = Fin (3 / 2), nz_mean = Fin 3,
           nz_std = Fin (sqrt 2), CV = Fin (sqrt 2 / 3), CV2 = Fin (2 / 9)\<rparr>"

text \<open>A table with the four columns and no record: no series has an observation.\<close>

definition df_empty :: "(nat, nat) frame" where
  "df_empty = \<lparr> columns = [''date'', ''store_id'', ''item_id'', ''total_sales''], rows = [] \<rparr>"

text \<open>A table without the column \<^verbatim>\<open>total_sales\<close>.\<close>

definition df_nocol :: "(nat, nat) frame" where
  "df_nocol = \<lparr> columns = [''date'', ''store_id'', ''item_id''], rows = [] \<rparr>"

section \<open>Inventory segmentation\<close>

subsection \<open>Feature tables and the random generator\<close>

text \<open>
  One record of a feature table: its index entry (the pair of \<^verbatim>\<open>item_id\<close> and
  \<^verbatim>\<open>store_id\<close>) and the six feature columns, in the order in which
  \<^verbatim>\<open>prepare_features\<close> adds them. The type of the cells is a parameter: float64 cells
  with the special values while the features are engineered, and plain reals for a table
  whose cells are all finite, which is what prediction and labelling work on.
\<close>

record ('k, 'c) features =
  entity :: 'k
  revenue_contribution :: 'c
  demand_cv :: 'c
  seasonality_strength :: 'c
  trend_slope :: 'c
  stockout_frequency :: 'c
  supplier_reliability :: 'c

text \<open>
  The process-wide generator behind \<^verbatim>\<open>np.random\<close>, as the sequence of the 53-bit
  integers it will deliver from its present state on. \<^verbatim>\<open>random_sample\<close> turns the next
  one into a number of [0, 1) and advances the state; \<^verbatim>\<open>uniform(low, high, size=n)\<close> is
  \<^verbatim>\<open>low + (high - low) * random_sample()\<close>, n times. The state is seeded by
  \<^verbatim>\<open>np.random.seed\<close> only; the constructor argument \<^verbatim>\<open>random_state\<close> of the
  segmentation does not touch it.
\<close>

type_synonym rng = "nat \<Rightarrow> nat"

definition random_sample :: "rng \<Rightarrow> real \<times> rng" where
  "random_sample g = (real (g 0 mod 2 ^ 53) / 2 ^ 53, \<lambda>i. g (Suc i))"

fun uniform :: "real \<Rightarrow> real \<Rightarrow> nat \<Rightarrow> rng \<Rightarrow> real list \<times> rng" where
  "uniform low high 0 g = ([], g)"
| "uniform low high (Suc n) g =
     (let (u, g1) = random_sample g;
          (us, g2) = uniform low high n g1
      in ((low + (high - low) * u) # us, g2))"

subsection \<open>\<^verbatim>\<open>prepare_features\<close> and its helpers\<close>

text \<open>
  \<^verbatim>\<open>groupby(['item_id', 'store_id'])\<close>: the keys that occur, ascending, and the records
  of one key.
\<close>

definition seg_keys :: "('s::linorder, 'i::linorder) row list \<Rightarrow> ('i \<times> 's) list" where
  "seg_keys rs = sort (remdups (map (\<lambda>r. (item_id r, store_id r)) rs))"

definition seg_rows :: "'i \<times> 's \<Rightarrow> ('s, 'i) row list \<Rightarrow> ('s, 'i) row list" where
  "seg_rows k rs = filter (\<lambda>r. (item_id r, store_id r) = k) rs"

text \<open>Feature 1, the sum of \<^verbatim>\<open>revenue\<close>, and feature 2, \<^verbatim>\<open>std / mean\<close> of \<^verbatim>\<open>sales\<close>
  with \<^verbatim>\<open>fillna(0)\<close> and the replacement of the infinities, for one group.\<close>

definition revenue_sum :: "('s, 'i) row list \<Rightarrow> npfloat" where
  "revenue_sum grp = Fin (sum_list (map revenue grp))"

definition demand_cv_of :: "('s, 'i) row list \<Rightarrow> npfloat" where
  "demand_cv_of grp =
     replace_inf0 (fillna0 (fdiv (std_pd (map sales grp)) (mean_pd (map sales grp))))"

text \<open>
  \<^verbatim>\<open>_calculate_seasonality_strength\<close> for one group: the mean of \<^verbatim>\<open>sales\<close> per calendar
  month (\<^verbatim>\<open>date.dt.month\<close>), the standard deviation of these means, divided by the overall
  mean, \<^verbatim>\<open>fillna(0)\<close>, \<^verbatim>\<open>clip(0, 1)\<close>.
\<close>

definition monthly_means :: "('s, 'i) row list \<Rightarrow> real list" where
  "monthly_means grp =
     map (\<lambda>m. let xs = map sales (filter (\<lambda>r. month (date r) = m) grp)
              in sum_list xs / real (length xs))
         (sort (remdups (map (\<lambda>r. month (date r)) grp)))"

definition seasonality_strength_of :: "('s, 'i) row list \<Rightarrow> npfloat" where
  "seasonality_strength_of grp =
     clip01 (fillna0 (fdiv (std_pd (monthly_means grp)) (mean_pd (map sales grp))))"

text \<open>
  \<^verbatim>\<open>linregress(x, y)\<close> of scipy, the slope only: the covariance of x and y over the
  variance of x. It is called with \<^verbatim>\<open>x = arange(len(group))\<close> and at least ten points.
\<close>

definition linregress_slope :: "real list \<Rightarrow> real list \<Rightarrow> real" where
  "linregress_slope xs ys =
     (let n = real (length xs);
          xm = sum_list xs / n;
          ym = sum_list ys / n;
          ssxm = sum_list (map (\<lambda>x. (x - xm)\<^sup>2) xs) / n;
          ssxym = sum_list (map (\<lambda>(x, y). (x - xm) * (y - ym)) (zip xs ys)) / n
      in ssxym / ssxm)"

text \<open>The inner function \<^verbatim>\<open>calculate_slope\<close> of \<^verbatim>\<open>_calculate_trend_slope\<close>.\<close>

definition calculate_slope :: "('s, 'i) row list \<Rightarrow> npfloat" where
  "calculate_slope grp =
     (if length grp < 10 then Fin 0
      else Fin (linregress_slope (map real [0..<length grp]) (map sales grp)))"

text \<open>\<^verbatim>\<open>max()\<close> of a pandas Series: NaN is skipped, and no value gives NaN.\<close>

fun fmax2 :: "npfloat \<Rightarrow> npfloat \<Rightarrow> npfloat" where
  "fmax2 a b = (if flt a b then b else a)"

definition fmax_skipna :: "npfloat list \<Rightarrow> npfloat" where
  "fmax_skipna xs =
     (case filter (\<lambda>x. x \<noteq> NaN) xs of [] \<Rightarrow> NaN | y # ys \<Rightarrow> foldl fmax2 y ys)"

text \<open>
  \<^verbatim>\<open>_calculate_trend_slope\<close> on a table with at least one record: the slopes of all
  groups (\<open>raw_slopes\<close>), divided by \<^verbatim>\<open>slopes.abs().max() + 1e-10\<close>, then
  \<^verbatim>\<open>fillna(0)\<close>; one value per key. (On a table without records \<^verbatim>\<open>groupby.apply\<close>
  gives an empty DataFrame instead of a Series and the normalising statement raises
  \<^verbatim>\<open>TypeError\<close>; \<open>prepare_features\<close> below has that case.)
\<close>

definition raw_slopes :: "('s::linorder, 'i::linorder) row list \<Rightarrow> (('i \<times> 's) \<times> npfloat) list" where
  "raw_slopes rs = map (\<lambda>k. (k, calculate_slope (seg_rows k rs))) (seg_keys rs)"

definition calculate_trend_slope ::
    "('s::linorder, 'i::linorder) row list \<Rightarrow> (('i \<times> 's) \<times> npfloat) list" where
  "calculate_trend_slope rs =
     (let slopes = raw_slopes rs;
          d = fadd (fmax_skipna (map (\<lambda>(k, v). fabs v) slopes)) (Fin (1 / 10 ^ 10))
      in map (\<lambda>(k, v). (k, fillna0 (fdiv v d))) slopes)"

text \<open>
  \<^verbatim>\<open>_calculate_stockout_frequency\<close>. Its one statement is
  \<^verbatim>\<open>(df.groupby(['item_id', 'store_id'])['sales'] == 0).groupby(level=[0, 1]).mean()\<close>:
  the comparison with 0 is applied to the group-by object, not to the column. pandas gives
  group-by objects no equality of their own, so \<^verbatim>\<open>==\<close> is Python's default comparison by
  identity and the parenthesis is the Boolean \<^verbatim>\<open>False\<close>; \<^verbatim>\<open>False.groupby\<close> then raises
  \<^verbatim>\<open>AttributeError\<close> ('bool' object has no attribute 'groupby'). Selecting a missing
  column raises \<^verbatim>\<open>KeyError\<close> before that. The function has no path that returns the
  frequencies, which is why the result type's right side is never produced.
\<close>

definition calculate_stockout_frequency ::
    "('s, 'i) frame \<Rightarrow> py_error + (('i \<times> 's) \<times> npfloat) list" where
  "calculate_stockout_frequency df =
     (if \<not> set [''item_id'', ''store_id'', ''sales''] \<subseteq> set (columns df) then Inl KeyError
      else Inl AttributeError)"

text \<open>
  Feature 6, the statement
  \<^verbatim>\<open>features['supplier_reliability'] = np.random.uniform(0.7, 1.0, size=len(features))\<close>:
  one draw per entity from the process-wide generator. No column of the input is read.
  (In exact reals every value is below 1.0; the float64 sum rounds to 1.0 for the largest
  draws.) No call of \<^verbatim>\<open>prepare_features\<close> reaches this statement, see below.
\<close>

definition supplier_reliability_column :: "nat \<Rightarrow> rng \<Rightarrow> npfloat list \<times> rng" where
  "supplier_reliability_column n g = (let (us, g') = uniform 0.7 1.0 n g in (map Fin us, g'))"

text \<open>The two cleaning statements at the end, \<^verbatim>\<open>fillna(0)\<close> and
  \<^verbatim>\<open>replace([np.inf, -np.inf], 0)\<close>, on every cell of a record.\<close>

definition clean_cell :: "npfloat \<Rightarrow> npfloat" where
  "clean_cell c = replace_inf0 (fillna0 c)"

definition clean_features :: "('k, npfloat) features \<Rightarrow> ('k, npfloat) features" where
  "clean_features f =
     \<lparr> entity = entity f,
       revenue_contribution = clean_cell (revenue_contribution f),
       demand_cv = clean_cell (demand_cv f),
       seasonality_strength = clean_cell (seasonality_strength f),
       trend_slope = clean_cell (trend_slope f),
       stockout_frequency = clean_cell (stockout_frequency f),
       supplier_reliability = clean_cell (supplier_reliability f) \<rparr>"

text \<open>
  \<^verbatim>\<open>prepare_features\<close>. The statements run in the order of the source; an exception
  ends the call, and the generator's state is then as it was. A missing column raises
  \<^verbatim>\<open>KeyError\<close>; on a table without records the call of \<^verbatim>\<open>_calculate_trend_slope\<close>
  raises \<^verbatim>\<open>TypeError\<close>; otherwise the call of \<^verbatim>\<open>_calculate_stockout_frequency\<close> is
  reached. The columns are aligned on the index, so the record of key \<open>k\<close> takes the
  value each column has for \<open>k\<close>.
\<close>

definition prepare_features ::
    "('s::linorder, 'i::linorder) frame \<Rightarrow> rng
      \<Rightarrow> py_error + (('i \<times> 's, npfloat) features list \<times> rng)" where
  "prepare_features df g =
     (if \<not> set [''item_id'', ''store_id'', ''revenue'', ''sales'', ''date''] \<subseteq> set (columns df)
      then Inl KeyError
      else if rows df = [] then Inl TypeError
      else
        let rs = rows df;
            ks = seg_keys rs;
            slopes = calculate_trend_slope rs
        in case calculate_stockout_frequency df of
             Inl e \<Rightarrow> Inl e
           | Inr stockouts \<Rightarrow>
               let (supplier, g') = supplier_reliability_column (length ks) g
               in Inr (map (\<lambda>(k, s). clean_features
                            \<lparr> entity = k,
                              revenue_contribution = revenue_sum (seg_rows k rs),
                              demand_cv = demand_cv_of (seg_rows k rs),
                              seasonality_strength = seasonality_strength_of (seg_rows k rs),
                              trend_slope = (case map_of slopes k of Some v \<Rightarrow> v | None \<Rightarrow> NaN),
                              stockout_frequency =
                                (case map_of stockouts k of Some v \<Rightarrow> v | None \<Rightarrow> NaN),
                              supplier_reliability = s \<rparr>)
                          (zip ks supplier),
                        g'))"

subsection \<open>Sample sales history\<close>

text \<open>
  A record of the sample history; quantity \<open>q\<close> is in both \<^verbatim>\<open>total_sales\<close> and
  \<^verbatim>\<open>sales\<close>, and the supplier reliability supplied with every record is 0.5.
\<close>

definition obs :: "nat \<Rightarrow> nat \<Rightarrow> timestamp \<Rightarrow> real \<Rightarrow> real \<Rightarrow> (nat, nat) row" where
  "obs i s d q v = \<lparr> date = d, store_id = s, item_id = i, total_sales = q, sales = q,
                     revenue = v, supplier_input = 1 / 2 \<rparr>"

text \<open>
  Item 1 of store 1 has two observations; item 2 of store 1 has ten, with sales
  0, 1, ..., 9 on consecutive days.
\<close>

definition history_w :: "(nat, nat) row list" where
  "history_w = [obs 1 1 (2024, 1, 1) 5 10, obs 1 1 (2024, 1, 2) 0 0]
          @ map (\<lambda>n. obs 2 1 (2024, 2, n + 1) (real n) 1) [0..<10]"

definition df_history :: "(nat, nat) frame" where
  "df_history = \<lparr> columns = [''item_id'', ''store_id'', ''revenue'', ''sales'', ''date'',
                              ''supplier_reliability''],
                  rows = history_w \<rparr>"

subsection \<open>Sample generator states\<close>

text \<open>A generator that delivers 0 for ever, and one that delivers 0, 1/8, 2/8, ... of
  the range.\<close>

definition rng_zero :: rng where
  "rng_zero = (\<lambda>i. 0)"


subsection \<open>The segmentation object and \<^verbatim>\<open>predict\<close>\<close>

text \<open>
  The two scikit-learn objects an \<^verbatim>\<open>InventorySegmentation\<close> holds. A
  \<^verbatim>\<open>StandardScaler\<close> is unfitted until \<^verbatim>\<open>fit\<close> stores the mean and the scale of every
  column. The attribute \<^verbatim>\<open>kmeans\<close> is \<^verbatim>\<open>None\<close> after construction; \<^verbatim>\<open>fit\<close> puts a
  \<^verbatim>\<open>KMeans\<close> object there, which is unfitted until its own \<^verbatim>\<open>fit\<close> has stored the
  cluster centres. \<^verbatim>\<open>fit\<close> is the only method that assigns the two attributes; the
  clustering it runs is scikit-learn's and is not part of this development.
\<close>

datatype scaler_state = ScalerUnfitted | ScalerFitted "real list" "real list"

datatype kmeans_state = KMeansNone | KMeansUnfitted | KMeansFitted "real list list"

record segmenter =
  n_clusters :: nat
  random_state :: int
  scaler :: scaler_state
  kmeans :: kmeans_state
  feature_names :: "string list option"

text \<open>The constructor \<^verbatim>\<open>__init__\<close>.\<close>

definition InventorySegmentation :: "nat \<Rightarrow> int \<Rightarrow> segmenter" where
  "InventorySegmentation n r =
     \<lparr> n_clusters = n, random_state = r, scaler = ScalerUnfitted, kmeans = KMeansNone,
       feature_names = None \<rparr>"

text \<open>The six cells of a record of a finite feature table, as a row of the matrix.\<close>

definition feature_vector :: "('k, real) features \<Rightarrow> real list" where
  "feature_vector f =
     [revenue_contribution f, demand_cv f, seasonality_strength f, trend_slope f,
      stockout_frequency f, supplier_reliability f]"

text \<open>
  \<^verbatim>\<open>StandardScaler.transform\<close>: it first checks that the scaler is fitted and raises
  \<^verbatim>\<open>NotFittedError\<close> otherwise; it rejects an empty matrix and a wrong number of columns
  with \<^verbatim>\<open>ValueError\<close>; then every cell becomes \<^verbatim>\<open>(x - mean) / scale\<close>.
\<close>

definition scaler_transform :: "scaler_state \<Rightarrow> real list list \<Rightarrow> py_error + npfloat list list" where
  "scaler_transform st X =
     (case st of
        ScalerUnfitted \<Rightarrow> Inl NotFittedError
      | ScalerFitted mu sc \<Rightarrow>
          if X = [] \<or> list_ex (\<lambda>x. length x \<noteq> length mu) X then Inl ValueError
          else Inr (map (\<lambda>x. map (\<lambda>(v, m, s). fdiv (Fin (v - m)) (Fin s)) (zip x (zip mu sc))) X))"

text \<open>The index of the first least element, as \<^verbatim>\<open>argmin\<close> gives it.\<close>

fun argmin :: "real list \<Rightarrow> nat" where
  "argmin [] = 0"
| "argmin (d # ds) = (if list_all (\<lambda>e. d \<le> e) ds then 0 else Suc (argmin ds))"

definition sq_dist :: "real list \<Rightarrow> real list \<Rightarrow> real" where
  "sq_dist x c = sum_list (map (\<lambda>(a, b). (a - b)\<^sup>2) (zip x c))"

fun the_fin :: "npfloat \<Rightarrow> real" where
  "the_fin (Fin x) = x"
| "the_fin _ = 0"

text \<open>
  The call \<^verbatim>\<open>self.kmeans.predict(X)\<close>: an attribute of \<^verbatim>\<open>None\<close> is an
  \<^verbatim>\<open>AttributeError\<close>; an unfitted \<^verbatim>\<open>KMeans\<close> raises \<^verbatim>\<open>NotFittedError\<close>; a fitted one
  rejects a cell that is not finite and a wrong number of columns with \<^verbatim>\<open>ValueError\<close>
  and otherwise gives every row the index of its nearest centre.
\<close>

definition kmeans_predict :: "kmeans_state \<Rightarrow> npfloat list list \<Rightarrow> py_error + nat list" where
  "kmeans_predict km X =
     (case km of
        KMeansNone \<Rightarrow> Inl AttributeError
      | KMeansUnfitted \<Rightarrow> Inl NotFittedError
      | KMeansFitted centres \<Rightarrow>
          if list_ex (\<lambda>x. list_ex (\<lambda>v. \<not> isfinite v) x) X
             \<or> list_ex (\<lambda>x. list_ex (\<lambda>c. length c \<noteq> length x) centres) X
          then Inl ValueError
          else Inr (map (\<lambda>x. argmin (map (sq_dist (map the_fin x)) centres)) X))"

text \<open>\<^verbatim>\<open>predict\<close>: the scaler's \<^verbatim>\<open>transform\<close>, then the prediction of the clusters. No
  attribute of the object is assigned.\<close>

definition predict :: "segmenter \<Rightarrow> ('k, real) features list \<Rightarrow> py_error + nat list" where
  "predict self features =
     (case scaler_transform (scaler self) (map feature_vector features) of
        Inl e \<Rightarrow> Inl e
      | Inr features_scaled \<Rightarrow> kmeans_predict (kmeans self) features_scaled)"

subsection \<open>\<^verbatim>\<open>assign_business_labels\<close>\<close>

text \<open>One row of \<^verbatim>\<open>cluster_stats\<close>: the means of four columns over the entities of a
  cluster.\<close>

record cluster_means =
  mean_revenue :: real
  mean_demand_cv :: real
  mean_seasonality :: real
  mean_trend :: real

definition mean_of :: "real list \<Rightarrow> real" where
  "mean_of xs = sum_list xs / real (length xs)"

text \<open>
  \<^verbatim>\<open>cluster_df.groupby('cluster').agg(...)\<close>: one row for every cluster id that occurs
  in \<^verbatim>\<open>clusters\<close>, ascending; an id without entity has no row.
\<close>

definition cluster_stats ::
    "('k, real) features list \<Rightarrow> nat list \<Rightarrow> (nat \<times> cluster_means) list" where
  "cluster_stats features clusters =
     map (\<lambda>c. let grp = map fst (filter (\<lambda>(f, c'). c' = c) (zip features clusters))
              in (c, \<lparr> mean_revenue = mean_of (map revenue_contribution grp),
                       mean_demand_cv = mean_of (map demand_cv grp),
                       mean_seasonality = mean_of (map seasonality_strength grp),
                       mean_trend = mean_of (map trend_slope grp) \<rparr>))
         (sort (remdups clusters))"

text \<open>
  \<^verbatim>\<open>Series.quantile(q)\<close> with the default linear interpolation: position
  \<^verbatim>\<open>(n - 1) * q\<close> in the sorted values, interpolated between its two neighbours; NaN for
  an empty series.
\<close>

definition quantile_pos :: "real list \<Rightarrow> real \<Rightarrow> real" where
  "quantile_pos s p =
     (let lo = nat \<lfloor>p\<rfloor>; hi = min (lo + 1) (length s - 1)
      in s ! lo + (s ! hi - s ! lo) * (p - real lo))"

definition quantile :: "real list \<Rightarrow> real \<Rightarrow> npfloat" where
  "quantile vs q =
     (if vs = [] then NaN else Fin (quantile_pos (sort vs) (real (length vs - 1) * q)))"

text \<open>The two label components and the label, from the body of the loop.\<close>

definition value_label :: "real list \<Rightarrow> real \<Rightarrow> string" where
  "value_label revenues r =
     (if fgt (Fin r) (quantile revenues 0.67) then ''Premium''
      else if fgt (Fin r) (quantile revenues 0.33) then ''Mid-Tier''
      else ''Budget'')"

definition stability_label :: "real \<Rightarrow> string" where
  "stability_label cv =
     (if cv < 0.5 then ''Stable'' else if cv < 1.0 then ''Moderate'' else ''Volatile'')"

definition business_label :: "real list \<Rightarrow> cluster_means \<Rightarrow> string" where
  "business_label revenues st =
     value_label revenues (mean_revenue st) @ ''-'' @ stability_label (mean_demand_cv st)"

text \<open>
  The loop \<^verbatim>\<open>for cluster in range(self.n_clusters)\<close>: \<^verbatim>\<open>cluster_stats.loc[cluster]\<close>
  raises \<^verbatim>\<open>KeyError\<close> when the table has no row for the id; otherwise the label of the id
  is stored in the dictionary \<^verbatim>\<open>labels\<close>.
\<close>

fun label_loop ::
    "(nat \<times> cluster_means) list \<Rightarrow> nat list \<Rightarrow> (nat \<rightharpoonup> string) \<Rightarrow> py_error + (nat \<rightharpoonup> string)" where
  "label_loop stats [] labels = Inr labels"
| "label_loop stats (c # cs) labels =
     (case map_of stats c of
        None \<Rightarrow> Inl KeyError
      | Some st \<Rightarrow>
          label_loop stats cs
            (labels(c \<mapsto> business_label (map (\<lambda>(c, st). mean_revenue st) stats) st)))"

text \<open>
  \<^verbatim>\<open>assign_business_labels\<close>. Adding the column \<^verbatim>\<open>cluster\<close> raises \<^verbatim>\<open>ValueError\<close>
  when the array has not one entry per record. The result maps every entry of
  \<^verbatim>\<open>clusters\<close> through the dictionary; an id that is not a key gives a missing value.
\<close>

definition assign_business_labels ::
    "segmenter \<Rightarrow> ('k, real) features list \<Rightarrow> nat list \<Rightarrow> py_error + string option list" where
  "assign_business_labels self features clusters =
     (if length clusters \<noteq> length features then Inl ValueError
      else
        case label_loop (cluster_stats features clusters) [0..<n_clusters self] Map.empty of
          Inl e \<Rightarrow> Inl e
        | Inr labels \<Rightarrow> Inr (map labels clusters))"

subsection \<open>Sample feature tables and segmentation objects\<close>

definition feat :: "nat \<Rightarrow> real \<Rightarrow> real \<Rightarrow> (nat, real) features" where
  "feat k r cv = \<lparr> entity = k, revenue_contribution = r, demand_cv = cv,
                   seasonality_strength = 0, trend_slope = 0, stockout_frequency = 0,
                   supplier_reliability = 1 \<rparr>"

text \<open>Three entities with revenues 100, 10 and 1000.\<close>

definition features_w :: "(nat, real) features list" where
  "features_w = [feat 1 100 (1 / 5), feat 2 10 (7 / 10), feat 3 1000 (3 / 2)]"

text \<open>An object as \<^verbatim>\<open>fit\<close> leaves it, with two cluster centres that differ in the
  first column.\<close>

definition seg_fitted :: segmenter where
  "seg_fitted = \<lparr> n_clusters = 2, random_state = 42,
       scaler = ScalerFitted [0, 0, 0, 0, 0, 0] [1, 1, 1, 1, 1, 1],
       kmeans = KMeansFitted [[0, 0, 0, 0, 0, 1], [1000, 0, 0, 0, 0, 1]],
       feature_names = None \<rparr>"

subsection \<open>The pipeline of path B\<close>



subsection \<open>A sample table of two entities\<close>

text \<open>Item 7 in store 1 with sales 0, 2 and 4, and item 7 in store 2 with one sale
  of 3 units.\<close>

definition df_two :: "(nat, nat) frame" where
  "df_two = \<lparr> columns = [''date'', ''store_id'', ''item_id'', ''total_sales''],
      rows = [ obs 7 1 (2024, 1, 2) 0 0, obs 7 2 (2024, 1, 1) 3 0,
               obs 7 1 (2024, 1, 1) 2 0, obs 7 1 (2024, 1, 3) 4 0 ] \<rparr>"

definition s_two :: "(nat, nat) stats" where
  "s_two = \<lparr>st_store_id = 2, st_item_id = 7, total_demand = 3,
           num_observations = 1, non_zero_obs = 1, ADI = Fin 1, nz_mean = Fin 3,
           nz_std = Fin 0, CV = Fin 0, CV2 = Fin 0\<rparr>"

section \<open>Properties of the classifier\<close>

text \<open>
  C1. For every finite non-negative pair (ADI, CV2) the category is Smooth when
  ADI < 1.32 and CV2 < 0.49, Erratic when ADI < 1.32 and CV2 >= 0.49, Intermittent when
  ADI >= 1.32 and CV2 < 0.49, and Lumpy when ADI >= 1.32 and CV2 >= 0.49. The comparisons
  are strict, so a value equal to a cutoff is in the not-below branch; in particular the
  pair (1.32, 0.1) is Intermittent. The four scenario pairs of the specification are
  included. (Nothing below depends on the signs of the two numbers.)
\<close>

theorem get_category_table:
  "get_category (Fin a) (Fin c) =
     (if a < 1.32 \<and> c < 0.49 then ''Smooth''
      else if a < 1.32 \<and> c \<ge> 0.49 then ''Erratic''
      else if a \<ge> 1.32 \<and> c < 0.49 then ''Intermittent''
      else ''Lumpy'')
   \<and> get_category (Fin 1.32) (Fin 0.1) = ''Intermittent''
   \<and> get_category (Fin 1.32) (Fin 0.49) = ''Lumpy''
   \<and> get_category (Fin 1.0) (Fin 0.49) = ''Erratic''
   \<and> get_category (Fin 1.0) (Fin 0.3) = ''Smooth''
   \<and> get_category (Fin 1.0) (Fin 0.8) = ''Erratic''
   \<and> get_category (Fin 2.0) (Fin 0.2) = ''Intermittent''
   \<and> get_category (Fin 2.0) (Fin 0.9) = ''Lumpy''"
  by (simp add: get_category_def)


subsection \<open>Statistics of one series\<close>

lemma sum_list_pos_real:
  fixes xs :: "real list"
  shows "xs \<noteq> [] \<Longrightarrow> \<forall>x\<in>set xs. 0 < x \<Longrightarrow> 0 < sum_list xs"
  by (induction xs) (auto simp: add_pos_nonneg sum_list_nonneg less_imp_le)

lemma entity_stats_ADI:
  assumes "\<exists>x\<in>set xs. 0 < x"
  shows "ADI (entity_stats k xs) = Fin (real (length xs) / real (length (filter (\<lambda>x. 0 < x) xs)))
       \<and> 1 \<le> real (length xs) / real (length (filter (\<lambda>x. 0 < x) xs))"
proof -
  have "filter (\<lambda>x. 0 < x) xs \<noteq> []" using assms by (auto simp: filter_empty_conv)
  then have pos: "0 < length (filter (\<lambda>x. 0 < x) xs)" by simp
  then have a: "ADI (entity_stats k xs) = Fin (real (length xs) / real (length (filter (\<lambda>x. 0 < x) xs)))"
    by (simp add: entity_stats_def Let_def)
  have "length (filter (\<lambda>x. 0 < x) xs) \<le> length xs" by simp
  with pos have "1 \<le> real (length xs) / real (length (filter (\<lambda>x. 0 < x) xs))"
    by (simp add: le_divide_eq)
  with a show ?thesis by simp
qed

lemma entity_stats_CV2_few:
  assumes "length (filter (\<lambda>x. 0 < x) xs) \<le> 1"
  shows "CV2 (entity_stats k xs) = Fin 0"
proof (cases "filter (\<lambda>x. 0 < x) xs")
  case Nil
  then show ?thesis by (simp add: entity_stats_def Let_def mean_pd_def std_pd_def)
next
  case (Cons y ys)
  with assms have ys: "ys = []" by simp
  have "y \<in> set (filter (\<lambda>x. 0 < x) xs)" using Cons by simp
  then have "0 < y" by simp
  with Cons ys show ?thesis by (simp add: entity_stats_def Let_def mean_pd_def std_pd_def)
qed

lemma entity_stats_CV2_nonneg:
  "\<exists>c\<ge>0. CV2 (entity_stats k xs) = Fin c"
proof (cases "length (filter (\<lambda>x. 0 < x) xs) \<le> 1")
  case True
  then show ?thesis using entity_stats_CV2_few [of xs k] by auto
next
  case False
  define nz where "nz = filter (\<lambda>x. 0 < x) xs"
  have len: "\<not> length nz < 2" and ne: "nz \<noteq> []" using False by (auto simp: nz_def)
  have "\<forall>x\<in>set nz. 0 < x" by (simp add: nz_def)
  with ne have "0 < sum_list nz" by (rule sum_list_pos_real)
  then have m: "sum_list nz / real (length nz) \<noteq> 0" using ne by simp
  have "CV2 (entity_stats k xs) = fillna0 (fsquare (fdiv (fillna0 (std_pd nz)) (fillna0 (mean_pd nz))))"
    by (simp add: entity_stats_def Let_def nz_def)
  also have "\<dots> = Fin ((sqrt (sum_list (map (\<lambda>x. (x - sum_list nz / real (length nz))\<^sup>2) nz) / real (length nz - 1))
                     / (sum_list nz / real (length nz)))\<^sup>2)"
    using len ne m by (simp add: std_pd_def mean_pd_def Let_def)
  finally show ?thesis by simp
qed

lemma length_filter_map_sort_key:
  "length (filter P (map g (sort_key f ys))) = length (filter (\<lambda>r. P (g r)) ys)"
proof -
  have "filter P (map g (sort_key f ys)) = map g (sort_key f (filter (P \<circ> g) ys))"
    by (simp add: filter_map filter_sort)
  then show ?thesis by (simp add: o_def)
qed

lemma calculate_features_rows:
  assumes "calculate_features df = Inr S" and "s \<in> set S"
  obtains xs k where "s = entity_stats k xs"
     and "k = (st_store_id s, st_item_id s)"
     and "length xs = length (filter (\<lambda>r. store_id r = st_store_id s \<and> item_id r = st_item_id s) (rows df))"
     and "length (filter (\<lambda>x. 0 < x) xs) =
         length (filter (\<lambda>r. store_id r = st_store_id s \<and> item_id r = st_item_id s \<and> 0 < total_sales r) (rows df))"
     and "xs \<noteq> []"
proof -
  define rs where "rs = sort_key (\<lambda>r. (store_id r, item_id r, date r)) (rows df)"
  from assms obtain k where k: "k \<in> set (group_keys rs)"
    and s: "s = entity_stats k (map total_sales (group_rows k rs))"
    by (auto simp: calculate_features_def Let_def rs_def split: if_splits)
  have key: "k = (st_store_id s, st_item_id s)"
    by (subst s, subst s) (simp add: entity_stats_def Let_def)
  define xs where "xs = map total_sales (group_rows k rs)"
  have 1: "s = entity_stats k xs" unfolding xs_def by (rule s)
  have gr: "group_rows k rs = sort_key (\<lambda>r. (store_id r, item_id r, date r))
       (filter (\<lambda>r. (store_id r, item_id r) = k) (rows df))"
    by (simp add: group_rows_def rs_def filter_sort)
  have 2: "length xs = length (filter (\<lambda>r. store_id r = st_store_id s \<and> item_id r = st_item_id s) (rows df))"
    unfolding xs_def gr using key by (simp add: prod_eq_iff)
  have "length (filter (\<lambda>x. 0 < x) xs) =
      length (filter (\<lambda>r. 0 < total_sales r) (filter (\<lambda>r. (store_id r, item_id r) = k) (rows df)))"
    unfolding xs_def gr by (rule length_filter_map_sort_key)
  then have 3: "length (filter (\<lambda>x. 0 < x) xs) =
         length (filter (\<lambda>r. store_id r = st_store_id s \<and> item_id r = st_item_id s \<and> 0 < total_sales r) (rows df))"
    using key by (simp add: prod_eq_iff conj_commute conj_left_commute)
  from k obtain r where "r \<in> set rs" "(store_id r, item_id r) = k"
    by (auto simp: group_keys_def)
  then have "r \<in> set (group_rows k rs)" by (simp add: group_rows_def)
  then have 4: "xs \<noteq> []" by (auto simp: xs_def)
  from 1 key 2 3 4 show ?thesis by (rule that)
qed

text \<open>The statistics of one row of the result, in terms of the records of its key.\<close>

lemma calculate_features_row_stats:
  assumes "calculate_features df = Inr S" and "s \<in> set S"
  shows "(\<exists>c\<ge>0. CV2 s = Fin c)
     \<and> (non_zero_obs s \<le> 1 \<longrightarrow> CV2 s = Fin 0)
     \<and> num_observations s =
         length (filter (\<lambda>r. store_id r = st_store_id s \<and> item_id r = st_item_id s) (rows df))
     \<and> non_zero_obs s =
         length (filter (\<lambda>r. store_id r = st_store_id s \<and> item_id r = st_item_id s
                             \<and> 0 < total_sales r) (rows df))
     \<and> ((\<exists>r\<in>set (rows df). store_id r = st_store_id s \<and> item_id r = st_item_id s
                              \<and> 0 < total_sales r)
          \<longrightarrow> ADI s = Fin (real (num_observations s) / real (non_zero_obs s))
            \<and> 1 \<le> real (num_observations s) / real (non_zero_obs s))"
proof -
  from assms obtain xs k where
    s': "s = entity_stats k xs"
    and n: "length xs = length (filter (\<lambda>r. store_id r = st_store_id s \<and> item_id r = st_item_id s) (rows df))"
    and nz: "length (filter (\<lambda>x. 0 < x) xs) =
         length (filter (\<lambda>r. store_id r = st_store_id s \<and> item_id r = st_item_id s \<and> 0 < total_sales r) (rows df))"
    by (rule calculate_features_rows)
  have no: "num_observations s = length xs"
    by (subst s') (simp add: entity_stats_def Let_def)
  have nzo: "non_zero_obs s = length (filter (\<lambda>x. 0 < x) xs)"
    by (subst s') (simp add: entity_stats_def Let_def)
  have a: "\<exists>c\<ge>0. CV2 s = Fin c" by (subst s', rule entity_stats_CV2_nonneg)
  have b: "non_zero_obs s \<le> 1 \<longrightarrow> CV2 s = Fin 0"
  proof
    assume "non_zero_obs s \<le> 1"
    then have "length (filter (\<lambda>x. 0 < x) xs) \<le> 1" unfolding nzo .
    then have "CV2 (entity_stats k xs) = Fin 0" by (rule entity_stats_CV2_few)
    then show "CV2 s = Fin 0" by (subst s')
  qed
  have c: "(\<exists>r\<in>set (rows df). store_id r = st_store_id s \<and> item_id r = st_item_id s \<and> 0 < total_sales r)
          \<longrightarrow> ADI s = Fin (real (num_observations s) / real (non_zero_obs s))
            \<and> 1 \<le> real (num_observations s) / real (non_zero_obs s)"
  proof
    assume "\<exists>r\<in>set (rows df). store_id r = st_store_id s \<and> item_id r = st_item_id s \<and> 0 < total_sales r"
    then have "filter (\<lambda>r. store_id r = st_store_id s \<and> item_id r = st_item_id s \<and> 0 < total_sales r) (rows df) \<noteq> []"
      by (auto simp: filter_empty_conv)
    then have "length (filter (\<lambda>x. 0 < x) xs) \<noteq> 0" unfolding nz by simp
    then have "filter (\<lambda>x. 0 < x) xs \<noteq> []" by simp
    then have "\<exists>x\<in>set xs. 0 < x" by (auto simp: filter_empty_conv)
    from entity_stats_ADI [OF this, of k] have "ADI (entity_stats k xs) = Fin (real (length xs) / real (length (filter (\<lambda>x. 0 < x) xs)))
       \<and> 1 \<le> real (length xs) / real (length (filter (\<lambda>x. 0 < x) xs))" .
    then show "ADI s = Fin (real (num_observations s) / real (non_zero_obs s))
            \<and> 1 \<le> real (num_observations s) / real (non_zero_obs s)"
      unfolding no nzo by (subst s')
  qed
  have d: "num_observations s =
         length (filter (\<lambda>r. store_id r = st_store_id s \<and> item_id r = st_item_id s) (rows df))"
    using no n by (rule trans)
  have e: "non_zero_obs s =
         length (filter (\<lambda>r. store_id r = st_store_id s \<and> item_id r = st_item_id s
                             \<and> 0 < total_sales r) (rows df))"
    using nzo nz by (rule trans)
  show ?thesis by (intro conjI a b c d e)
qed

lemma fge_Fin_nonneg: "0 \<le> c \<Longrightarrow> fge (Fin c) (Fin 0)"
  by simp

lemma calculate_features_keys:
  assumes "calculate_features df = Inr S"
  shows "map (\<lambda>s. (st_store_id s, st_item_id s)) S
           = group_keys (sort_key (\<lambda>r. (store_id r, item_id r, date r)) (rows df))"
proof -
  define rs where "rs = sort_key (\<lambda>r. (store_id r, item_id r, date r)) (rows df)"
  have S: "S = map (\<lambda>k. entity_stats k (map total_sales (group_rows k rs))) (group_keys rs)"
    using assms by (auto simp: calculate_features_def Let_def rs_def split: if_splits)
  have "map (\<lambda>s. (st_store_id s, st_item_id s)) S = map (\<lambda>k. k) (group_keys rs)"
    unfolding S by (simp add: entity_stats_def Let_def o_def)
  then show ?thesis by (simp add: rs_def)
qed

lemma calculate_features_covers:
  assumes "calculate_features df = Inr S" and "r \<in> set (rows df)"
  shows "\<exists>s\<in>set S. st_store_id s = store_id r \<and> st_item_id s = item_id r"
proof -
  have "(store_id r, item_id r)
      \<in> set (group_keys (sort_key (\<lambda>r. (store_id r, item_id r, date r)) (rows df)))"
    using assms(2) by (force simp: group_keys_def)
  then have "(store_id r, item_id r) \<in> set (map (\<lambda>s. (st_store_id s, st_item_id s)) S)"
    by (simp only: calculate_features_keys [OF assms(1)])
  then show ?thesis by auto
qed

lemma calculate_features_distinct:
  assumes "calculate_features df = Inr S"
  shows "distinct (map (\<lambda>s. (st_store_id s, st_item_id s)) S)"
  unfolding calculate_features_keys [OF assms] by (simp add: group_keys_def)

lemma calculate_features_two: "calculate_features df_two = Inr [s_w, s_two]"
  by (simp add: df_two_def obs_def s_w_def s_two_def calculate_features_def group_keys_def
      group_rows_def entity_stats_def mean_pd_def std_pd_def Let_def power_divide)


text \<open>
  C4. Every entity of the input (every key that a record carries) has exactly one row in
  the result, and for every row: CV2 >= 0; CV2 = 0 whenever nonZeroObservations is at
  most 1; numObservations and nonZeroObservations count the entity's records and its
  records with a quantity above zero; and when the series has at least one such record,
  ADI = numObservations / nonZeroObservations and ADI is at least 1. (The code counts an
  observation as nonzero when it is above zero; quantities are non-negative in the data
  model.)
\<close>

theorem calculate_features_ADI_CV2:
  assumes "calculate_features df = Inr S"
  shows "(\<forall>r\<in>set (rows df). \<exists>s\<in>set S. st_store_id s = store_id r \<and> st_item_id s = item_id r)
     \<and> distinct (map (\<lambda>s. (st_store_id s, st_item_id s)) S)
     \<and> (\<forall>s\<in>set S.
           fge (CV2 s) (Fin 0)
         \<and> (non_zero_obs s \<le> 1 \<longrightarrow> CV2 s = Fin 0)
         \<and> num_observations s =
             length (filter (\<lambda>r. store_id r = st_store_id s \<and> item_id r = st_item_id s) (rows df))
         \<and> non_zero_obs s =
             length (filter (\<lambda>r. store_id r = st_store_id s \<and> item_id r = st_item_id s
                                 \<and> 0 < total_sales r) (rows df))
         \<and> ((\<exists>r\<in>set (rows df). store_id r = st_store_id s \<and> item_id r = st_item_id s
                                  \<and> 0 < total_sales r)
              \<longrightarrow> ADI s = Fin (real (num_observations s) / real (non_zero_obs s))
                \<and> 1 \<le> real (num_observations s) / real (non_zero_obs s)))"
proof (intro conjI ballI)
  fix r assume "r \<in> set (rows df)"
  with assms show "\<exists>s\<in>set S. st_store_id s = store_id r \<and> st_item_id s = item_id r"
    by (rule calculate_features_covers)
next
  show "distinct (map (\<lambda>s. (st_store_id s, st_item_id s)) S)"
    using assms by (rule calculate_features_distinct)
next
  fix s assume s: "s \<in> set S"
  note t = calculate_features_row_stats [OF assms s]
  from t obtain c where "0 \<le> c" "CV2 s = Fin c" by blast
  then show "fge (CV2 s) (Fin 0)" by simp
  from t show "non_zero_obs s \<le> 1 \<longrightarrow> CV2 s = Fin 0" by (elim conjE)
  from t show "num_observations s =
             length (filter (\<lambda>r. store_id r = st_store_id s \<and> item_id r = st_item_id s) (rows df))"
    by (elim conjE)
  from t show "non_zero_obs s =
             length (filter (\<lambda>r. store_id r = st_store_id s \<and> item_id r = st_item_id s
                                 \<and> 0 < total_sales r) (rows df))"
    by (elim conjE)
  from t show "(\<exists>r\<in>set (rows df). store_id r = st_store_id s \<and> item_id r = st_item_id s
                                  \<and> 0 < total_sales r)
              \<longrightarrow> ADI s = Fin (real (num_observations s) / real (non_zero_obs s))
                \<and> 1 \<le> real (num_observations s) / real (non_zero_obs s)"
    by (elim conjE)
qed

theorem calculate_features_ADI_CV2_witness:
  "calculate_features df_two = Inr [s_w, s_two]
   \<and> distinct [(1 :: nat, 7 :: nat), (2, 7)]
   \<and> fge (CV2 s_w) (Fin 0) \<and> CV2 s_w = Fin (2 / 9)
   \<and> num_observations s_w = 3 \<and> non_zero_obs s_w = 2
   \<and> ADI s_w = Fin (3 / 2) \<and> (1 :: real) \<le> 3 / 2
   \<and> fge (CV2 s_two) (Fin 0) \<and> non_zero_obs s_two = 1 \<and> CV2 s_two = Fin 0
   \<and> num_observations s_two = 1 \<and> ADI s_two = Fin 1"
proof -
  note t = calculate_features_ADI_CV2 [OF calculate_features_two]
  have "distinct [(1 :: nat, 7 :: nat), (2, 7)]" by simp
  with t calculate_features_two show ?thesis
    by (simp add: s_w_def s_two_def)
qed

subsection \<open>A series without observations\<close>

text \<open>
  C6 as stated: for every demand series with zero total observations the statistics
  computation fails with a DataError rather than producing a result. On the table that
  has the four columns and no record, the computation returns the empty result and raises
  nothing.
\<close>

theorem calculate_features_empty_returns:
  "calculate_features df_empty = Inr [] \<and> \<not> isl (calculate_features df_empty)"
  by (simp add: calculate_features_def df_empty_def group_keys_def)

text \<open>
  C6, amended. On a table that has the four columns the computation never fails: it
  returns a result in which every entity has at least one observation, and the result of
  a table without records is empty, because a series with zero observations forms no
  group. The computation fails only when one of the four columns is missing, with the
  \<^verbatim>\<open>KeyError\<close> of the column selection.
\<close>

theorem calculate_features_no_data_error:
  "(set [''date'', ''store_id'', ''item_id'', ''total_sales''] \<subseteq> set (columns df) \<longrightarrow>
      (\<exists>S. calculate_features df = Inr S
         \<and> (\<forall>s\<in>set S. 1 \<le> num_observations s)
         \<and> (rows df = [] \<longrightarrow> S = [])))
   \<and> (\<not> set [''date'', ''store_id'', ''item_id'', ''total_sales''] \<subseteq> set (columns df) \<longrightarrow>
        calculate_features df = Inl KeyError)"
proof (intro conjI impI)
  assume c: "set [''date'', ''store_id'', ''item_id'', ''total_sales''] \<subseteq> set (columns df)"
  then obtain S where S: "calculate_features df = Inr S"
    by (simp add: calculate_features_def Let_def)
  have "\<forall>s\<in>set S. 1 \<le> num_observations s"
  proof
    fix s assume "s \<in> set S"
    with S obtain xs k where s: "s = entity_stats k xs" and ne: "xs \<noteq> []"
      by (rule calculate_features_rows)
    have "num_observations s = length xs"
      by (subst s) (simp add: entity_stats_def Let_def)
    with ne show "1 \<le> num_observations s" by (simp add: Suc_le_eq)
  qed
  moreover have "rows df = [] \<longrightarrow> S = []"
    using S c by (auto simp: calculate_features_def Let_def group_keys_def)
  ultimately show "\<exists>S. calculate_features df = Inr S
         \<and> (\<forall>s\<in>set S. 1 \<le> num_observations s) \<and> (rows df = [] \<longrightarrow> S = [])"
    using S by blast
next
  assume "\<not> set [''date'', ''store_id'', ''item_id'', ''total_sales''] \<subseteq> set (columns df)"
  then show "calculate_features df = Inl KeyError"
    by (simp add: calculate_features_def)
qed

theorem calculate_features_no_data_error_witness:
  "set [''date'', ''store_id'', ''item_id'', ''total_sales''] \<subseteq> set (columns df_empty)
   \<and> rows df_empty = []
   \<and> calculate_features df_empty = Inr []
   \<and> \<not> set [''date'', ''store_id'', ''item_id'', ''total_sales''] \<subseteq> set (columns df_nocol)
   \<and> calculate_features df_nocol = Inl KeyError"
  using calculate_features_no_data_error [of df_empty] calculate_features_no_data_error [of df_nocol]
  by (auto simp: df_empty_def df_nocol_def)

section \<open>Properties of the feature engineering\<close>

subsection \<open>Trend slope\<close>

lemma foldl_fmax2_Fin:
  "\<forall>v\<in>set ys. \<exists>x\<ge>0. v = Fin x \<Longrightarrow> 0 \<le> a \<Longrightarrow> \<exists>m\<ge>0. foldl fmax2 (Fin a) ys = Fin m"
proof (induction ys arbitrary: a)
  case Nil
  then show ?case by simp
next
  case (Cons y ys)
  then obtain x where x: "y = Fin x" "0 \<le> x" by auto
  have "fmax2 (Fin a) y = Fin (if a < x then x else a)" using x by simp
  moreover have "0 \<le> (if a < x then x else a)" using x Cons.prems by simp
  ultimately show ?case using Cons.IH [of "if a < x then x else a"] Cons.prems by simp
qed

lemma fmax_skipna_Fin:
  assumes "vs \<noteq> []" and "\<forall>v\<in>set vs. \<exists>x\<ge>0. v = Fin x"
  shows "\<exists>m\<ge>0. fmax_skipna vs = Fin m"
proof -
  have "filter (\<lambda>x. x \<noteq> NaN) vs = vs" using assms(2) by (auto simp: filter_id_conv)
  moreover obtain y ys where vs: "vs = y # ys" using assms(1) by (cases vs) auto
  moreover obtain a where "y = Fin a" "0 \<le> a" using assms(2) vs by auto
  moreover have "\<forall>v\<in>set ys. \<exists>x\<ge>0. v = Fin x" using assms(2) vs by simp
  ultimately show ?thesis using foldl_fmax2_Fin [of ys a] by (simp add: fmax_skipna_def)
qed

lemma calculate_slope_Fin: "\<exists>x. calculate_slope grp = Fin x"
  by (simp add: calculate_slope_def)

lemma map_of_keyed: "k \<in> set ks \<Longrightarrow> map_of (map (\<lambda>k. (k, f k)) ks) k = Some (f k)"
  by (induction ks) auto

lemma map_of_mapped_values:
  "map_of (map (\<lambda>(k, v). (k, h v)) xs) k = map_option h (map_of xs k)"
  by (induction xs) auto

lemma upt_ten: "[0..<10] = [0, 1, 2, 3, 4, 5, 6, 7, 8, 9]"
  by (simp add: upt_rec)

lemma seg_keys_history: "seg_keys history_w = [(1, 1), (2, 1)]"
  by (simp add: history_w_def obs_def seg_keys_def upt_ten)

lemma raw_slopes_history: "raw_slopes history_w = [((1, 1), Fin 0), ((2, 1), Fin 1)]"
  unfolding raw_slopes_def seg_keys_history
  by (simp add: calculate_slope_def linregress_slope_def seg_rows_def history_w_def obs_def
      upt_ten Let_def power_divide)

lemma calculate_trend_slope_history:
  "calculate_trend_slope history_w = [((1, 1), Fin 0), ((2, 1), Fin (1 / (1 + 1 / 10 ^ 10)))]"
  unfolding calculate_trend_slope_def raw_slopes_history
  by (simp add: fmax_skipna_def Let_def)

text \<open>
  C8. For every entity of the batch whose series has fewer than 10 observations, the
  slope is exactly 0 before the normalisation (the value of \<^verbatim>\<open>calculate_slope\<close>) and
  exactly 0 after it (the value \<^verbatim>\<open>_calculate_trend_slope\<close> returns for the entity, all
  slopes having been divided by the largest absolute slope of the batch plus 1e-10).
\<close>

theorem trend_slope_short_series:
  assumes "k \<in> set (seg_keys rs)" and "length (seg_rows k rs) < 10"
  shows "map_of (raw_slopes rs) k = Some (Fin 0)
       \<and> map_of (calculate_trend_slope rs) k = Some (Fin 0)"
proof -
  have raw: "map_of (raw_slopes rs) k = Some (Fin 0)"
    using assms by (simp add: raw_slopes_def map_of_keyed calculate_slope_def)
  define vs where "vs = map (\<lambda>(k, v). fabs v) (raw_slopes rs)"
  have "vs \<noteq> []" using assms(1) by (auto simp: vs_def raw_slopes_def)
  moreover have "\<forall>v\<in>set vs. \<exists>x\<ge>0. v = Fin x"
    by (auto simp: vs_def raw_slopes_def calculate_slope_def)
  ultimately obtain m where m: "fmax_skipna vs = Fin m" "0 \<le> m"
    using fmax_skipna_Fin by blast
  define d where "d = fadd (fmax_skipna vs) (Fin (1 / 10 ^ 10))"
  have d: "d = Fin (m + 1 / 10 ^ 10)" by (simp add: d_def m)
  have pos: "m + 1 / 10 ^ 10 \<noteq> 0" using m(2) by (simp add: add_nonneg_eq_0_iff)
  have "calculate_trend_slope rs = map (\<lambda>(k, v). (k, fillna0 (fdiv v d))) (raw_slopes rs)"
    by (simp add: calculate_trend_slope_def Let_def d_def vs_def)
  then have "map_of (calculate_trend_slope rs) k = map_option (\<lambda>v. fillna0 (fdiv v d)) (map_of (raw_slopes rs) k)"
    by (simp only: map_of_mapped_values)
  also have "\<dots> = Some (fillna0 (fdiv (Fin 0) d))" by (simp add: raw)
  also have "\<dots> = Some (Fin 0)" unfolding d using pos by simp
  finally show ?thesis using raw by simp
qed

theorem trend_slope_short_series_witness:
  "(1, 1) \<in> set (seg_keys history_w) \<and> length (seg_rows (1, 1) history_w) < 10
   \<and> map_of (raw_slopes history_w) (1, 1) = Some (Fin 0)
   \<and> map_of (calculate_trend_slope history_w) (1, 1) = Some (Fin 0)
   \<and> map_of (calculate_trend_slope history_w) (2, 1) = Some (Fin (1 / (1 + 1 / 10 ^ 10)))"
proof -
  have k: "(1, 1) \<in> set (seg_keys history_w)" by (simp add: seg_keys_history)
  have n: "length (seg_rows (1, 1) history_w) < 10"
    by (simp add: history_w_def obs_def seg_rows_def upt_ten)
  from trend_slope_short_series [OF k n] k n show ?thesis
    by (simp add: calculate_trend_slope_history)
qed

subsection \<open>Supplier reliability\<close>

text \<open>The statement of feature 6 on two entities, with the generator that delivers
  zeros: both values are 0.7, whatever the table holds.\<close>

lemma uniform_two:
  "uniform low high 2 g =
     ([low + (high - low) * fst (random_sample g),
       low + (high - low) * fst (random_sample (snd (random_sample g)))],
      snd (random_sample (snd (random_sample g))))"
proof -
  have "uniform low high (Suc (Suc 0)) g =
     ([low + (high - low) * fst (random_sample g),
       low + (high - low) * fst (random_sample (snd (random_sample g)))],
      snd (random_sample (snd (random_sample g))))"
    by (simp add: case_prod_beta Let_def)
  then show ?thesis by (simp only: numeral_2_eq_2)
qed

lemma supplier_zero_2: "supplier_reliability_column 2 rng_zero = ([Fin (7 / 10), Fin (7 / 10)], rng_zero)"
  by (simp add: supplier_reliability_column_def uniform_two random_sample_def rng_zero_def)

subsection \<open>Variability and seasonality\<close>

text \<open>For every group the demand CV is finite (0 for a single observation) and the
  seasonality strength is a number of [0, 1].\<close>

lemma replace_inf0_fillna0_finite: "isfinite (replace_inf0 (fillna0 c))"
  by (cases c) simp_all

lemma demand_cv_of_finite: "isfinite (demand_cv_of grp)"
  by (simp add: demand_cv_of_def replace_inf0_fillna0_finite)

lemma clip01_fillna0_unit: "\<exists>x. clip01 (fillna0 c) = Fin x \<and> 0 \<le> x \<and> x \<le> 1"
  by (cases c) auto

lemma seasonality_strength_of_unit:
  "\<exists>x. seasonality_strength_of grp = Fin x \<and> 0 \<le> x \<and> x \<le> 1"
  by (simp add: seasonality_strength_of_def clip01_fillna0_unit)

lemma demand_cv_of_single: "demand_cv_of [r] = Fin 0"
  by (simp add: demand_cv_of_def std_pd_def mean_pd_def)

subsection \<open>The call of \<^verbatim>\<open>prepare_features\<close> as a whole\<close>

text \<open>The cleaning statements leave a finite number in every cell: a finite cell is
  kept, NaN and the infinities become 0.\<close>

lemma clean_cell_finite: "isfinite (clean_cell c)"
  by (cases c) (simp_all add: clean_cell_def)

lemma clean_cell_cases:
  "clean_cell (Fin x) = Fin x" "clean_cell NaN = Fin 0" "clean_cell PInf = Fin 0" "clean_cell NInf = Fin 0"
  by (simp_all add: clean_cell_def)

lemma clean_features_finite:
  "isfinite (revenue_contribution (clean_features f)) \<and> isfinite (demand_cv (clean_features f))
   \<and> isfinite (seasonality_strength (clean_features f)) \<and> isfinite (trend_slope (clean_features f))
   \<and> isfinite (stockout_frequency (clean_features f)) \<and> isfinite (supplier_reliability (clean_features f))"
  by (simp add: clean_features_def clean_cell_finite)



lemma prepare_features_empty_table:
  "set [''item_id'', ''store_id'', ''revenue'', ''sales'', ''date''] \<subseteq> set (columns df)
    \<Longrightarrow> rows df = [] \<Longrightarrow> prepare_features df g = Inl TypeError"
  by (simp add: prepare_features_def)


text \<open>
  C9 (the feature matrix returned by the feature engineering has no NaN and no infinite
  cell). On the sample history, which has every column the function reads, the call
  returns no matrix: it raises \<^verbatim>\<open>AttributeError\<close>.
\<close>

theorem prepare_features_raises:
  "prepare_features df_history rng_zero = Inl AttributeError"
proof -
  have "rows df_history \<noteq> []" by (simp add: df_history_def history_w_def)
  then show ?thesis
    by (simp add: prepare_features_def calculate_stockout_frequency_def Let_def df_history_def)
qed



section \<open>Properties of the segmentation object\<close>

subsection \<open>Prediction\<close>

text \<open>Whenever the scaler is unfitted, \<^verbatim>\<open>predict\<close> raises \<^verbatim>\<open>NotFittedError\<close>; on a
  fitted object it returns the index of the nearest centre for every record.\<close>

lemma predict_unfitted_scaler:
  "scaler self = ScalerUnfitted \<Longrightarrow> predict self features = Inl NotFittedError"
  by (simp add: predict_def scaler_transform_def)

lemma predict_after_fit: "predict seg_fitted features_w = Inr [0, 0, 1]"
  by (simp add: predict_def seg_fitted_def features_w_def feat_def scaler_transform_def
      kmeans_predict_def feature_vector_def sq_dist_def)

text \<open>
  C7. For every feature matrix, \<^verbatim>\<open>predict\<close> on an object that was constructed and never
  fitted fails with \<^verbatim>\<open>NotFittedError\<close>, raised by the scaler's \<^verbatim>\<open>transform\<close> before the
  attribute \<^verbatim>\<open>kmeans\<close> is touched; no assignment is returned, and \<^verbatim>\<open>predict\<close> changes
  no attribute, so nothing is fitted on the way.
\<close>

theorem predict_before_fit:
  "predict (InventorySegmentation n r) features = Inl NotFittedError"
  by (simp add: predict_def InventorySegmentation_def scaler_transform_def)

subsection \<open>Clusters without entity\<close>

lemma map_of_cluster_stats_None:
  "c \<notin> set clusters \<Longrightarrow> map_of (cluster_stats features clusters) c = None"
  by (simp add: cluster_stats_def map_of_eq_None_iff image_image Let_def)

lemma map_of_cluster_stats_Some:
  "c \<in> set clusters \<Longrightarrow> \<exists>st. map_of (cluster_stats features clusters) c = Some st"
proof -
  assume "c \<in> set clusters"
  then have "c \<in> fst ` set (cluster_stats features clusters)"
    by (simp add: cluster_stats_def image_image Let_def)
  then show ?thesis by (metis map_of_eq_None_iff not_Some_eq)
qed

lemma label_loop_KeyError:
  "\<exists>c\<in>set cs. map_of stats c = None \<Longrightarrow> label_loop stats cs labels = Inl KeyError"
proof (induction cs arbitrary: labels)
  case Nil
  then show ?case by simp
next
  case (Cons c cs)
  show ?case
  proof (cases "map_of stats c")
    case None
    then show ?thesis by simp
  next
    case (Some st)
    with Cons.prems have "\<exists>c\<in>set cs. map_of stats c = None" by auto
    from Cons.IH [OF this] Some show ?thesis by simp
  qed
qed

lemma label_loop_returns:
  "\<forall>c\<in>set cs. map_of stats c \<noteq> None \<Longrightarrow> \<exists>ls. label_loop stats cs labels = Inr ls"
  by (induction cs arbitrary: labels) auto

lemma assign_business_labels_all_present:
  assumes "length clusters = length features"
    and "\<forall>c<n_clusters self. c \<in> set clusters"
  shows "\<exists>ls. assign_business_labels self features clusters = Inr ls"
proof -
  have "\<forall>c\<in>set [0..<n_clusters self]. map_of (cluster_stats features clusters) c \<noteq> None"
    using assms(2) map_of_cluster_stats_Some [of _ clusters features] by auto
  from label_loop_returns [OF this, of Map.empty] obtain ls where
    "label_loop (cluster_stats features clusters) [0..<n_clusters self] Map.empty = Inr ls" by blast
  then show ?thesis using assms(1) by (simp add: assign_business_labels_def)
qed

text \<open>
  C10. For every clustering (one cluster id per record of the feature table) and every
  configured number of clusters, if some id below \<^verbatim>\<open>n_clusters\<close> has no entity, then
  \<^verbatim>\<open>assign_business_labels\<close> fails with \<^verbatim>\<open>KeyError\<close> and returns no labels: the loop
  runs over all ids below \<^verbatim>\<open>n_clusters\<close> and looks each up in the table of cluster
  means, which has rows for the ids that occur only.
\<close>

theorem assign_business_labels_empty_cluster:
  assumes "length clusters = length features"
    and "\<exists>c<n_clusters self. c \<notin> set clusters"
  shows "assign_business_labels self features clusters = Inl KeyError"
proof -
  from assms(2) obtain c where c: "c < n_clusters self" "c \<notin> set clusters" by blast
  then have "map_of (cluster_stats features clusters) c = None"
    by (simp add: map_of_cluster_stats_None)
  moreover have "c \<in> set [0..<n_clusters self]" using c by simp
  ultimately have "label_loop (cluster_stats features clusters) [0..<n_clusters self] Map.empty
      = Inl KeyError"
    by (intro label_loop_KeyError) blast
  then show ?thesis using assms(1) by (simp add: assign_business_labels_def)
qed

theorem assign_business_labels_empty_cluster_witness:
  "length [0, 0, 0 :: nat] = length features_w \<and> (1::nat) < n_clusters seg_fitted \<and> 1 \<notin> set [0, 0, 0 :: nat]
   \<and> assign_business_labels seg_fitted features_w [0, 0, 0] = Inl KeyError"
proof -
  have l: "length [0, 0, 0 :: nat] = length features_w" by (simp add: features_w_def)
  have e: "\<exists>c<n_clusters seg_fitted. c \<notin> set [0, 0, 0 :: nat]"
    by (rule exI [of _ 1]) (simp add: seg_fitted_def)
  from assign_business_labels_empty_cluster [OF l e] l show ?thesis
    by (simp add: seg_fitted_def)
qed

subsection \<open>Business labels\<close>

text \<open>The interpolated quantile of a non-empty series grows with the level, so the
  33rd percentile is at most the 67th.\<close>

lemma frac_bounds:
  fixes p :: real
  assumes "0 \<le> p"
  shows "0 \<le> p - real (nat \<lfloor>p\<rfloor>)" and "p - real (nat \<lfloor>p\<rfloor>) < 1"
proof -
  have "real (nat \<lfloor>p\<rfloor>) = of_int \<lfloor>p\<rfloor>" using assms by simp
  then show "0 \<le> p - real (nat \<lfloor>p\<rfloor>)" and "p - real (nat \<lfloor>p\<rfloor>) < 1" by linarith+
qed

lemma quantile_pos_bounds:
  assumes "sorted s" and "0 \<le> p" and "nat \<lfloor>p\<rfloor> < length s"
  shows "s ! nat \<lfloor>p\<rfloor> \<le> quantile_pos s p"
    and "quantile_pos s p \<le> s ! min (nat \<lfloor>p\<rfloor> + 1) (length s - 1)"
proof -
  define lo where "lo = nat \<lfloor>p\<rfloor>"
  define hi where "hi = min (lo + 1) (length s - 1)"
  define t where "t = p - real lo"
  have t: "0 \<le> t" "t < 1" using frac_bounds [OF assms(2)] by (simp_all add: t_def lo_def)
  have "lo \<le> hi" "hi < length s" using assms(3) by (auto simp: hi_def lo_def)
  then have d: "s ! lo \<le> s ! hi" using assms(1) by (simp add: sorted_nth_mono)
  have q: "quantile_pos s p = s ! lo + (s ! hi - s ! lo) * t"
    by (simp add: quantile_pos_def Let_def lo_def hi_def t_def)
  have "0 \<le> (s ! hi - s ! lo) * t" using d t by simp
  then show "s ! nat \<lfloor>p\<rfloor> \<le> quantile_pos s p" unfolding q lo_def [symmetric] by simp
  have "(s ! hi - s ! lo) * t \<le> (s ! hi - s ! lo) * 1"
    using d t by (intro mult_left_mono) simp_all
  then show "quantile_pos s p \<le> s ! min (nat \<lfloor>p\<rfloor> + 1) (length s - 1)"
    unfolding q lo_def [symmetric] hi_def [symmetric] by simp
qed

lemma quantile_pos_mono:
  assumes "sorted s" and "0 \<le> p1" and "p1 \<le> p2" and "nat \<lfloor>p2\<rfloor> < length s"
  shows "quantile_pos s p1 \<le> quantile_pos s p2"
proof -
  have le: "nat \<lfloor>p1\<rfloor> \<le> nat \<lfloor>p2\<rfloor>" using assms(3) by (simp add: floor_mono nat_mono)
  have p2: "0 \<le> p2" using assms by simp
  show ?thesis
  proof (cases "nat \<lfloor>p1\<rfloor> = nat \<lfloor>p2\<rfloor>")
    case True
    define lo where "lo = nat \<lfloor>p2\<rfloor>"
    define hi where "hi = min (lo + 1) (length s - 1)"
    have "lo \<le> hi" "hi < length s" using assms(4) by (auto simp: hi_def lo_def)
    then have d: "0 \<le> s ! hi - s ! lo" using assms(1) by (simp add: sorted_nth_mono)
    have "quantile_pos s p2 - quantile_pos s p1 = (s ! hi - s ! lo) * (p2 - p1)"
      using True by (simp add: quantile_pos_def Let_def lo_def hi_def algebra_simps)
    moreover have "0 \<le> (s ! hi - s ! lo) * (p2 - p1)" using d assms(3) by simp
    ultimately show ?thesis by linarith
  next
    case False
    with le have lt: "nat \<lfloor>p1\<rfloor> + 1 \<le> nat \<lfloor>p2\<rfloor>" by simp
    have l1: "nat \<lfloor>p1\<rfloor> < length s" using le assms(4) by simp
    have "quantile_pos s p1 \<le> s ! min (nat \<lfloor>p1\<rfloor> + 1) (length s - 1)"
      using quantile_pos_bounds(2) [OF assms(1,2) l1] .
    also have "min (nat \<lfloor>p1\<rfloor> + 1) (length s - 1) = nat \<lfloor>p1\<rfloor> + 1" using lt assms(4) by simp
    also have "s ! (nat \<lfloor>p1\<rfloor> + 1) \<le> s ! nat \<lfloor>p2\<rfloor>"
      using assms(1) lt assms(4) by (simp add: sorted_nth_mono)
    also have "\<dots> \<le> quantile_pos s p2" using quantile_pos_bounds(1) [OF assms(1) p2 assms(4)] .
    finally show ?thesis .
  qed
qed

lemma quantile_mono:
  assumes "vs \<noteq> []" and "0 \<le> q1" and "q1 \<le> q2" and "q2 \<le> 1"
  shows "\<exists>a b. quantile vs q1 = Fin a \<and> quantile vs q2 = Fin b \<and> a \<le> b"
proof -
  define n where "n = length vs"
  have n: "0 < n" using assms(1) by (simp add: n_def)
  have a: "0 \<le> real (n - 1) * q1" using assms(2) by simp
  have b: "real (n - 1) * q1 \<le> real (n - 1) * q2" using assms(3) by (simp add: mult_left_mono)
  have "real (n - 1) * q2 \<le> real (n - 1) * 1" using assms(4) by (intro mult_left_mono) simp_all
  then have "\<lfloor>real (n - 1) * q2\<rfloor> \<le> int (n - 1)" by (simp add: floor_le_iff)
  then have "nat \<lfloor>real (n - 1) * q2\<rfloor> \<le> n - 1" by simp
  then have "nat \<lfloor>real (n - 1) * q2\<rfloor> < n" using n by linarith
  then have c: "nat \<lfloor>real (n - 1) * q2\<rfloor> < length (sort vs)"
    unfolding n_def by (simp only: length_sort)
  have "quantile_pos (sort vs) (real (n - 1) * q1) \<le> quantile_pos (sort vs) (real (n - 1) * q2)"
    by (rule quantile_pos_mono [OF sorted_sort a b c])
  moreover have "quantile vs q1 = Fin (quantile_pos (sort vs) (real (n - 1) * q1))"
    "quantile vs q2 = Fin (quantile_pos (sort vs) (real (n - 1) * q2))"
    using assms(1) unfolding quantile_def n_def by (simp_all only: if_False)
  ultimately show ?thesis by blast
qed

lemma value_label_tiers:
  assumes "quantile revenues 0.33 = Fin q33" and "quantile revenues 0.67 = Fin q67" and "q33 \<le> q67"
  shows "(value_label revenues r = ''Premium'') = (q67 < r)"
    and "(value_label revenues r = ''Mid-Tier'') = (q33 < r \<and> r \<le> q67)"
    and "(value_label revenues r = ''Budget'') = (r \<le> q33)"
  using assms by (auto simp: value_label_def fgt_def)

lemma stability_label_tiers:
  "(stability_label cv = ''Stable'') = (cv < 0.5)"
  "(stability_label cv = ''Moderate'') = (0.5 \<le> cv \<and> cv < 1)"
  "(stability_label cv = ''Volatile'') = (1 \<le> cv)"
  by (auto simp: stability_label_def)

lemma label_loop_labels:
  "label_loop stats cs labels = Inr ls \<Longrightarrow> c \<in> set cs \<Longrightarrow>
     \<exists>st. map_of stats c = Some st
        \<and> ls c = Some (business_label (map (\<lambda>(c, st). mean_revenue st) stats) st)"
proof (induction cs arbitrary: labels)
  case Nil
  then show ?case by simp
next
  case (Cons a cs)
  from Cons.prems(1) obtain st where st: "map_of stats a = Some st"
    and rest: "label_loop stats cs
        (labels(a \<mapsto> business_label (map (\<lambda>(c, st). mean_revenue st) stats) st)) = Inr ls"
    by (auto split: option.splits)
  show ?case
  proof (cases "c \<in> set cs")
    case True
    from Cons.IH [OF rest True] show ?thesis .
  next
    case False
    with Cons.prems(2) have ca: "c = a" by simp
    have keep: "\<And>labels ls. label_loop stats cs labels = Inr ls \<Longrightarrow> c \<notin> set cs \<Longrightarrow> ls c = labels c"
    proof -
      fix labels ls show "label_loop stats cs labels = Inr ls \<Longrightarrow> c \<notin> set cs \<Longrightarrow> ls c = labels c"
        by (induction cs arbitrary: labels) (auto split: option.splits)
    qed
    from keep [OF rest False] st ca show ?thesis by simp
  qed
qed


lemma cluster_stats_sample:
  "cluster_stats features_w [0, 1, 2] =
     [(0, \<lparr> mean_revenue = 100, mean_demand_cv = 1 / 5, mean_seasonality = 0, mean_trend = 0 \<rparr>),
      (1, \<lparr> mean_revenue = 10, mean_demand_cv = 7 / 10, mean_seasonality = 0, mean_trend = 0 \<rparr>),
      (2, \<lparr> mean_revenue = 1000, mean_demand_cv = 3 / 2, mean_seasonality = 0, mean_trend = 0 \<rparr>)]"
  by (simp add: cluster_stats_def features_w_def feat_def mean_of_def)

lemma quantile_sample:
  "quantile [100, 10, 1000] (33 / 100) = Fin (347 / 5)"
  "quantile [100, 10, 1000] (67 / 100) = Fin 406"
  by (simp_all add: quantile_def quantile_pos_def Let_def)

lemma assign_business_labels_sample:
  "assign_business_labels (InventorySegmentation 3 42) features_w [0, 1, 2]
     = Inr [Some ''Mid-Tier-Stable'', Some ''Budget-Moderate'', Some ''Premium-Volatile'']"
proof -
  have u: "[0..<3] = [0, 1, 2]" by (simp add: upt_rec)
  have n: "n_clusters (InventorySegmentation 3 42) = 3" by (simp add: InventorySegmentation_def)
  show ?thesis
    unfolding assign_business_labels_def cluster_stats_sample n u
    by (simp add: features_w_def business_label_def value_label_def stability_label_def
        quantile_sample fgt_def)
qed


text \<open>
  C5 as stated: the value tier is Premium exactly when the cluster's mean revenue exceeds
  the 67th percentile of the cluster means, Budget exactly when it is below the 33rd, and
  Mid-Tier otherwise, values equal to the 33rd percentile included. With one cluster, whose
  mean revenue is 100, the 33rd percentile of the cluster means is 100 itself; the mean is
  not below it, and the label is Budget-Stable, not Mid-Tier-Stable.
\<close>

theorem assign_business_labels_single_cluster:
  "assign_business_labels (InventorySegmentation 1 42) [feat 1 100 (1 / 5)] [0]
     = Inr [Some ''Budget-Stable'']
   \<and> quantile [100] 0.33 = Fin 100
   \<and> cluster_stats [feat 1 100 (1 / 5)] [0]
     = [(0, \<lparr> mean_revenue = 100, mean_demand_cv = 1 / 5, mean_seasonality = 0, mean_trend = 0 \<rparr>)]"
proof -
  have cs: "cluster_stats [feat 1 100 (1 / 5)] [0]
     = [(0, \<lparr> mean_revenue = 100, mean_demand_cv = 1 / 5, mean_seasonality = 0, mean_trend = 0 \<rparr>)]"
    by (simp add: cluster_stats_def feat_def mean_of_def)
  have q: "quantile [100] q = Fin 100" for q
    by (simp add: quantile_def quantile_pos_def)
  have "assign_business_labels (InventorySegmentation 1 42) [feat 1 100 (1 / 5)] [0]
     = Inr [Some ''Budget-Stable'']"
    unfolding assign_business_labels_def cs
    by (simp add: InventorySegmentation_def business_label_def value_label_def
        stability_label_def q fgt_def)
  with cs q show ?thesis by simp
qed

text \<open>
  C5, amended. For every entity whose cluster id is below \<^verbatim>\<open>n_clusters\<close>, in a call
  that returns, the label is the string value-stability built from the means of the
  entity's cluster, where the percentiles are taken over the means of the clusters: the
  value tier is Premium exactly when the mean revenue exceeds the 67th percentile,
  Mid-Tier exactly when it exceeds the 33rd percentile but not the 67th, and Budget exactly
  when it is at or below the 33rd percentile (a value equal to the 33rd percentile is
  Budget); the stability tier is Stable exactly when the mean demand CV is below 0.5,
  Moderate when it is at least 0.5 and below 1.0, and Volatile otherwise.
\<close>

theorem assign_business_labels_tiers:
  assumes "assign_business_labels self features clusters = Inr ls"
    and "i < length clusters" and "clusters ! i < n_clusters self"
  shows "\<exists>st q33 q67 v s.
      map_of (cluster_stats features clusters) (clusters ! i) = Some st
    \<and> quantile (map (\<lambda>(c, st). mean_revenue st) (cluster_stats features clusters)) 0.33 = Fin q33
    \<and> quantile (map (\<lambda>(c, st). mean_revenue st) (cluster_stats features clusters)) 0.67 = Fin q67
    \<and> q33 \<le> q67
    \<and> ls ! i = Some (v @ ''-'' @ s)
    \<and> (v = ''Premium'') = (q67 < mean_revenue st)
    \<and> (v = ''Mid-Tier'') = (q33 < mean_revenue st \<and> mean_revenue st \<le> q67)
    \<and> (v = ''Budget'') = (mean_revenue st \<le> q33)
    \<and> (s = ''Stable'') = (mean_demand_cv st < 0.5)
    \<and> (s = ''Moderate'') = (0.5 \<le> mean_demand_cv st \<and> mean_demand_cv st < 1)
    \<and> (s = ''Volatile'') = (1 \<le> mean_demand_cv st)"
proof -
  define stats where "stats = cluster_stats features clusters"
  define revs where "revs = map (\<lambda>(c, st). mean_revenue st) stats"
  from assms(1) obtain labels where
    loop: "label_loop stats [0..<n_clusters self] Map.empty = Inr labels"
    and ls: "ls = map labels clusters"
    by (auto simp: assign_business_labels_def stats_def split: if_splits sum.splits)
  have "clusters ! i \<in> set [0..<n_clusters self]" using assms(3) by simp
  from label_loop_labels [OF loop this] obtain st where
    st: "map_of stats (clusters ! i) = Some st"
    and lab: "labels (clusters ! i) = Some (business_label revs st)"
    unfolding revs_def by blast
  have "stats \<noteq> []" using st by auto
  then have ne: "revs \<noteq> []" by (simp add: revs_def)
  have "(0::real) \<le> 0.33" "(0.33::real) \<le> 0.67" "(0.67::real) \<le> 1" by simp_all
  from quantile_mono [OF ne this] obtain q33 q67 where
    q: "quantile revs 0.33 = Fin q33" "quantile revs 0.67 = Fin q67" "q33 \<le> q67" by blast
  define v where "v = value_label revs (mean_revenue st)"
  define s where "s = stability_label (mean_demand_cv st)"
  have li: "ls ! i = Some (v @ ''-'' @ s)"
    using assms(2) lab by (simp add: ls business_label_def v_def s_def)
  have v1: "(v = ''Premium'') = (q67 < mean_revenue st)"
    and v2: "(v = ''Mid-Tier'') = (q33 < mean_revenue st \<and> mean_revenue st \<le> q67)"
    and v3: "(v = ''Budget'') = (mean_revenue st \<le> q33)"
    unfolding v_def by (rule value_label_tiers [OF q])+
  have s1: "(s = ''Stable'') = (mean_demand_cv st < 0.5)"
    and s2: "(s = ''Moderate'') = (0.5 \<le> mean_demand_cv st \<and> mean_demand_cv st < 1)"
    and s3: "(s = ''Volatile'') = (1 \<le> mean_demand_cv st)"
    unfolding s_def by (rule stability_label_tiers)+
  have "map_of stats (clusters ! i) = Some st
    \<and> quantile revs 0.33 = Fin q33
    \<and> quantile revs 0.67 = Fin q67
    \<and> q33 \<le> q67
    \<and> ls ! i = Some (v @ ''-'' @ s)
    \<and> (v = ''Premium'') = (q67 < mean_revenue st)
    \<and> (v = ''Mid-Tier'') = (q33 < mean_revenue st \<and> mean_revenue st \<le> q67)
    \<and> (v = ''Budget'') = (mean_revenue st \<le> q33)
    \<and> (s = ''Stable'') = (mean_demand_cv st < 0.5)
    \<and> (s = ''Moderate'') = (0.5 \<le> mean_demand_cv st \<and> mean_demand_cv st < 1)
    \<and> (s = ''Volatile'') = (1 \<le> mean_demand_cv st)"
    by (intro conjI st q li v1 v2 v3 s1 s2 s3)
  then show ?thesis
    unfolding stats_def revs_def
    by (intro exI [of _ st] exI [of _ q33] exI [of _ q67] exI [of _ v] exI [of _ s])
qed


theorem assign_business_labels_tiers_witness:
  "assign_business_labels (InventorySegmentation 3 42) features_w [0, 1, 2]
     = Inr [Some ''Mid-Tier-Stable'', Some ''Budget-Moderate'', Some ''Premium-Volatile'']
   \<and> (0::nat) < length [0, 1, 2 :: nat]
   \<and> [0, 1, 2] ! 0 < n_clusters (InventorySegmentation 3 42)
   \<and> (\<exists>st q33 q67 v s.
      map_of (cluster_stats features_w [0, 1, 2]) ([0, 1, 2] ! 0) = Some st
    \<and> quantile (map (\<lambda>(c, st). mean_revenue st) (cluster_stats features_w [0, 1, 2])) 0.33 = Fin q33
    \<and> quantile (map (\<lambda>(c, st). mean_revenue st) (cluster_stats features_w [0, 1, 2])) 0.67 = Fin q67
    \<and> q33 \<le> q67
    \<and> [Some ''Mid-Tier-Stable'', Some ''Budget-Moderate'', Some ''Premium-Volatile''] ! 0
        = Some (v @ ''-'' @ s)
    \<and> (v = ''Premium'') = (q67 < mean_revenue st)
    \<and> (v = ''Mid-Tier'') = (q33 < mean_revenue st \<and> mean_revenue st \<le> q67)
    \<and> (v = ''Budget'') = (mean_revenue st \<le> q33)
    \<and> (s = ''Stable'') = (mean_demand_cv st < 0.5)
    \<and> (s = ''Moderate'') = (0.5 \<le> mean_demand_cv st \<and> mean_demand_cv st < 1)
    \<and> (s = ''Volatile'') = (1 \<le> mean_demand_cv st))"
proof -
  have l: "(0::nat) < length [0, 1, 2 :: nat]" by simp
  have k: "[0, 1, 2] ! 0 < n_clusters (InventorySegmentation 3 42)"
    by (simp add: InventorySegmentation_def)
  have c: "(\<exists>st q33 q67 v s.
            map_of (cluster_stats features_w [0, 1, 2]) ([0, 1, 2] ! 0) = Some st
          \<and> quantile (map (\<lambda>(c, st). mean_revenue st) (cluster_stats features_w [0, 1, 2])) 0.33 = Fin q33
          \<and> quantile (map (\<lambda>(c, st). mean_revenue st) (cluster_stats features_w [0, 1, 2])) 0.67 = Fin q67
          \<and> q33 \<le> q67
          \<and> [Some ''Mid-Tier-Stable'', Some ''Budget-Moderate'', Some ''Premium-Volatile''] ! 0
              = Some (v @ ''-'' @ s)
          \<and> (v = ''Premium'') = (q67 < mean_revenue st)
          \<and> (v = ''Mid-Tier'') = (q33 < mean_revenue st \<and> mean_revenue st \<le> q67)
          \<and> (v = ''Budget'') = (mean_revenue st \<le> q33)
          \<and> (s = ''Stable'') = (mean_demand_cv st < 0.5)
          \<and> (s = ''Moderate'') = (0.5 \<le> mean_demand_cv st \<and> mean_demand_cv st < 1)
          \<and> (s = ''Volatile'') = (1 \<le> mean_demand_cv st))"
    by (rule assign_business_labels_tiers [OF assign_business_labels_sample l k])
  show ?thesis by (intro conjI assign_business_labels_sample l k c)
qed

end
